theory Spec2Isabelle
  imports Main "HOL-Library.Word"
begin

unbundle bit_operations_syntax

section \<open>Bytes, errors and the library calls the encoders use\<close>

text \<open>
  A Python \<open>bytes\<close> value is a list of 8-bit words; a Python \<open>str\<close> whose code points
  stay below 256 is a \<open>string\<close>; Python integers are unbounded, hence \<open>int\<close>.
\<close>

type_synonym byte = "8 word"
type_synonym bytes = "byte list"

text \<open>
  The exceptions the modelled code can raise: the module's own
  \<open>YubiKeyNEO_USBHIDError\<close> with its message, \<open>ValueError\<close> from building a byte out of
  an integer outside 0..255, and \<open>struct.error\<close> from \<open>struct.pack\<close>.
\<close>

datatype error = YubiKeyNEO_USBHIDError string | ValueError | StructError

text \<open>
  Modelled from the spec: \<open>yubico_util.chr_byte\<close> is not among the source files. The
  spec calls its result a one-byte code (a one-byte status field); building a byte from an
  integer outside 0..255 raises.
\<close>

definition chr_byte :: "int \<Rightarrow> error + bytes" where
  "chr_byte number =
     (if 0 \<le> number \<and> number \<le> 255 then Inr [word_of_int number] else Inl ValueError)"

text \<open>\<open>bytes.ljust(width, fill)\<close>: pads on the right, never truncates.\<close>

definition ljust :: "bytes \<Rightarrow> nat \<Rightarrow> byte \<Rightarrow> bytes" where
  "ljust data width fill = data @ replicate (width - length data) fill"

text \<open>\<open>bytes.decode('latin-1')\<close>: every byte is the code point of the same value.\<close>

definition decode_latin1 :: "bytes \<Rightarrow> string" where
  "decode_latin1 data = map (\<lambda>b. char_of (unat b)) data"

text \<open>
  \<open>str.lower()\<close> on code points below 256: the ASCII capitals and the Latin-1 capitals
  (0xC0..0xDE without the multiplication sign 0xD7) move up by 32, everything else stays.
\<close>

definition lower_char :: "char \<Rightarrow> char" where
  "lower_char c =
     (let n = (of_char c :: nat)
      in if (65 \<le> n \<and> n \<le> 90) \<or> (192 \<le> n \<and> n \<le> 222 \<and> n \<noteq> 215)
         then char_of (n + 32) else c)"

definition lower :: "string \<Rightarrow> string" where
  "lower s = map lower_char s"

text \<open>
  The \<open>struct.pack\<close> field codes in use, all under the byte order prefix \<open><\<close>:
  \<open>B\<close> (unsigned byte), \<open>H\<close> (unsigned 16-bit, low byte first) and \<open>Ns\<close> (exactly N
  bytes: longer input is cut, shorter input is filled with zero bytes).
\<close>

definition pack_B :: "int \<Rightarrow> error + bytes" where
  "pack_B v = (if 0 \<le> v \<and> v \<le> 255 then Inr [word_of_int v] else Inl StructError)"

definition pack_H :: "int \<Rightarrow> error + bytes" where
  "pack_H v =
     (if 0 \<le> v \<and> v \<le> 65535
      then Inr [word_of_int (v mod 256), word_of_int (v div 256)]
      else Inl StructError)"

definition pack_s :: "nat \<Rightarrow> bytes \<Rightarrow> bytes" where
  "pack_s n v = take n v @ replicate (n - length v) 0"

text \<open>Sequencing of fallible steps: the first exception ends the computation.\<close>

definition bind_err :: "error + 'a \<Rightarrow> ('a \<Rightarrow> error + 'b) \<Rightarrow> error + 'b" where
  "bind_err m f = (case m of Inl e \<Rightarrow> Inl e | Inr x \<Rightarrow> f x)"

section \<open>Constants of \<open>yubikey_neo_usb_hid\<close>\<close>

definition SLOT_NDEF :: int where "SLOT_NDEF = 0x08"
definition ACC_CODE_SIZE :: nat where "ACC_CODE_SIZE = 6"
definition NDEF_DATA_SIZE :: nat where "NDEF_DATA_SIZE = 54"
definition SLOT_DEVICE_CONFIG :: int where "SLOT_DEVICE_CONFIG = 0x11"
definition MODE_OTP :: int where "MODE_OTP = 0x00"

definition NDEF_URI_TYPE :: int where "NDEF_URI_TYPE = 0x55"
definition NDEF_TEXT_TYPE :: int where "NDEF_TEXT_TYPE = 0x54"

definition uri_identifiers :: "(int \<times> string) list" where
  "uri_identifiers =
    [(0x01, ''http://www.''),
     (0x02, ''https://www.''),
     (0x03, ''http://''),
     (0x04, ''https://''),
     (0x05, ''tel:''),
     (0x06, ''mailto:''),
     (0x07, ''ftp://anonymous:anonymous@''),
     (0x08, ''ftp://ftp.''),
     (0x09, ''ftps://''),
     (0x0a, ''sftp://''),
     (0x0b, ''smb://''),
     (0x0c, ''nfs://''),
     (0x0d, ''ftp://''),
     (0x0e, ''dav://''),
     (0x0f, ''news:''),
     (0x10, ''telnet://''),
     (0x11, ''imap:''),
     (0x12, ''rtsp://''),
     (0x13, ''urn:''),
     (0x14, ''pop:''),
     (0x15, ''sip:''),
     (0x16, ''sips:''),
     (0x17, ''tftp:''),
     (0x18, ''btspp://''),
     (0x19, ''btl2cap://''),
     (0x1a, ''btgoep://''),
     (0x1b, ''tcpobex://''),
     (0x1c, ''irdaobex://''),
     (0x1d, ''file://''),
     (0x1e, ''urn:epc:id:''),
     (0x1f, ''urn:epc:tag:''),
     (0x20, ''urn:epc:pat:''),
     (0x21, ''urn:epc:raw:''),
     (0x22, ''urn:epc:''),
     (0x23, ''urn:nfc:'')]"

section \<open>The capability gate: \<open>YubiKeyNEO_USBHIDCapabilities\<close>\<close>

text \<open>
  The device version is a triple of integers, compared as Python compares tuples: by the
  first component in which the two differ.
\<close>

type_synonym version = "int \<times> int \<times> int"

fun tuple_lt :: "version \<Rightarrow> version \<Rightarrow> bool" where
  "tuple_lt (a1, a2, a3) (b1, b2, b3) =
     (if a1 \<noteq> b1 then a1 < b1 else if a2 \<noteq> b2 then a2 < b2 else a3 < b3)"

fun tuple_ge :: "version \<Rightarrow> version \<Rightarrow> bool" where
  "tuple_ge (a1, a2, a3) (b1, b2, b3) =
     (if a1 \<noteq> b1 then a1 > b1 else if a2 \<noteq> b2 then a2 > b2 else a3 \<ge> b3)"

definition have_challenge_response :: "version \<Rightarrow> 'm \<Rightarrow> bool" where
  "have_challenge_response version mode = tuple_ge version (3, 0, 0)"

definition have_configuration_slot :: "version \<Rightarrow> int \<Rightarrow> bool" where
  "have_configuration_slot version slot =
     (if tuple_lt version (3, 0, 0) then slot = 1 else slot \<in> set [1, 2])"

definition have_nfc_ndef :: "version \<Rightarrow> bool" where
  "have_nfc_ndef version = True"

definition have_device_config :: "version \<Rightarrow> bool" where
  "have_device_config version = tuple_ge version (3, 0, 0)"

section \<open>The device-mode record: \<open>YubiKeyNEO_DEVICE_CONFIG\<close>\<close>

text \<open>The fields \<open>_mode\<close>, \<open>_cr_timeout\<close> and \<open>_auto_eject_time\<close> of the class.\<close>

record DEVICE_CONFIG =
  priv_mode :: int
  priv_cr_timeout :: int
  priv_auto_eject_time :: int

text \<open>The constructor; \<open>None\<close> stands for an omitted argument (default \<open>_MODE_OTP\<close>).\<close>

definition DEVICE_CONFIG_init :: "int option \<Rightarrow> DEVICE_CONFIG" where
  "DEVICE_CONFIG_init m =
     \<lparr>priv_mode = (case m of None \<Rightarrow> MODE_OTP | Some v \<Rightarrow> v),
      priv_cr_timeout = 0, priv_auto_eject_time = 0\<rparr>"

definition cr_timeout :: "DEVICE_CONFIG \<Rightarrow> int \<Rightarrow> DEVICE_CONFIG" where
  "cr_timeout c timeout = c\<lparr>priv_cr_timeout := timeout\<rparr>"

definition auto_eject_time :: "DEVICE_CONFIG \<Rightarrow> int \<Rightarrow> DEVICE_CONFIG" where
  "auto_eject_time c t = c\<lparr>priv_auto_eject_time := t\<rparr>"

text \<open>\<open>struct.pack('<BBH', self._mode, self._cr_timeout, self._auto_eject_time)\<close>\<close>

definition DEVICE_CONFIG_to_string :: "DEVICE_CONFIG \<Rightarrow> error + bytes" where
  "DEVICE_CONFIG_to_string c =
     bind_err (pack_B (priv_mode c)) (\<lambda>b1.
     bind_err (pack_B (priv_cr_timeout c)) (\<lambda>b2.
     bind_err (pack_H (priv_auto_eject_time c)) (\<lambda>b3.
     Inr (b1 @ b2 @ b3))))"

text \<open>
  Modelled from the spec: the class \<open>yubikey_frame.YubiKeyFrame\<close> is not among the source
  files. The spec gives a frame two fields and no other state: the command (slot) code and
  the payload.
\<close>

record YubiKeyFrame =
  command :: int
  payload :: bytes

text \<open>\<open>to_frame(slot)\<close>; \<open>None\<close> stands for an omitted argument (default \<open>_SLOT_DEVICE_CONFIG\<close>).\<close>

definition DEVICE_CONFIG_to_frame :: "DEVICE_CONFIG \<Rightarrow> int option \<Rightarrow> error + YubiKeyFrame" where
  "DEVICE_CONFIG_to_frame c slot =
     bind_err (DEVICE_CONFIG_to_string c) (\<lambda>data.
     Inr \<lparr>command = (case slot of None \<Rightarrow> SLOT_DEVICE_CONFIG | Some s \<Rightarrow> s),
          payload = ljust data 64 0\<rparr>)"

section \<open>The NFC tag record: \<open>YubiKeyNEO_NDEF\<close>\<close>

record NDEF =
  ndef_type :: int
  ndef_str :: bytes
  access_code :: bytes
  ndef_uri_rt :: int
  ndef_text_lang :: bytes
  ndef_text_enc :: string

text \<open>
  The constructor over the class attributes; \<open>None\<close> stands for an omitted access code,
  which leaves the class default of \<open>_ACC_CODE_SIZE\<close> zero bytes.
\<close>

definition NDEF_init :: "bytes \<Rightarrow> bytes option \<Rightarrow> NDEF" where
  "NDEF_init data ac =
     \<lparr>ndef_type = NDEF_URI_TYPE,
      ndef_str = data,
      access_code = (case ac of None \<Rightarrow> replicate ACC_CODE_SIZE 0 | Some a \<Rightarrow> a),
      ndef_uri_rt = 0,
      ndef_text_lang = map of_char ''en'',
      ndef_text_enc = ''UTF-8''\<rparr>"

text \<open>The method \<open>text(encoding, language)\<close>.\<close>

definition NDEF_text :: "NDEF \<Rightarrow> string \<Rightarrow> bytes \<Rightarrow> NDEF" where
  "NDEF_text r encoding language =
     r\<lparr>ndef_type := NDEF_TEXT_TYPE, ndef_text_lang := language, ndef_text_enc := encoding\<rparr>"

text \<open>
  The argument \<open>other\<close> of the method \<open>type\<close> is dynamically typed: \<open>None\<close>, an \<open>int\<close>,
  or a value of some other type (a \<open>bool\<close>, a string, ...), of which only the fact that
  its type is not \<open>int\<close> matters.
\<close>

datatype pyval = PyNone | PyInt int | PyOther

text \<open>
  The method \<open>type(url, text, other)\<close>, with the flags \<open>url\<close> and \<open>text\<close> as booleans. It
  returns the record as it is afterwards together with the exception raised, if any: the
  exception is raised before any assignment.
\<close>

definition NDEF_type :: "NDEF \<Rightarrow> bool \<Rightarrow> bool \<Rightarrow> pyval \<Rightarrow> NDEF \<times> error option" where
  "NDEF_type r url txt other =
     (if (url, txt, other) = (True, False, PyNone) then (r\<lparr>ndef_type := NDEF_URI_TYPE\<rparr>, None)
      else if (url, txt, other) = (False, True, PyNone) then (r\<lparr>ndef_type := NDEF_TEXT_TYPE\<rparr>, None)
      else (case other of
              PyInt n \<Rightarrow>
                if (url, txt) = (False, False) then (r\<lparr>ndef_type := n\<rparr>, None)
                else (r, Some (YubiKeyNEO_USBHIDError ''Bad or conflicting NDEF type specified''))
            | _ \<Rightarrow> (r, Some (YubiKeyNEO_USBHIDError ''Bad or conflicting NDEF type specified''))))"

text \<open>
  The loop of \<open>_encode_ndef_uri_type\<close> over the table: the first entry whose prefix equals
  the lower-cased start of the data gives the code and cuts the prefix off (\<open>break\<close>);
  when the table is exhausted the code is still \<open>0x0\<close> and the data untouched.
\<close>

fun uri_scan :: "(int \<times> string) list \<Rightarrow> bytes \<Rightarrow> int \<times> bytes" where
  "uri_scan [] data = (0x0, data)"
| "uri_scan ((code, prefix) # rest) data =
     (if lower (decode_latin1 (take (length prefix) data)) = prefix
      then (code, drop (length prefix) data)
      else uri_scan rest data)"

definition encode_ndef_uri_type :: "bytes \<Rightarrow> error + bytes" where
  "encode_ndef_uri_type data =
     (case uri_scan uri_identifiers data of
        (t, data') \<Rightarrow> bind_err (chr_byte t) (\<lambda>b. Inr (b @ data')))"

definition encode_ndef_text_params :: "NDEF \<Rightarrow> bytes \<Rightarrow> error + bytes" where
  "encode_ndef_text_params r data =
     (let status = int (length (ndef_text_lang r));
          status = (if ndef_text_enc r = ''UTF16'' then status AND 0b10000000 else status)
      in bind_err (chr_byte status) (\<lambda>b. Inr (b @ ndef_text_lang r @ data)))"

text \<open>The first lines of \<open>to_string\<close>: the data after the transform of the record's type.\<close>

definition to_string_data :: "NDEF \<Rightarrow> error + bytes" where
  "to_string_data r =
     (if ndef_type r = NDEF_URI_TYPE then encode_ndef_uri_type (ndef_str r)
      else if ndef_type r = NDEF_TEXT_TYPE then encode_ndef_text_params r (ndef_str r)
      else Inr (ndef_str r))"

text \<open>
  \<open>to_string\<close>: the length check, then
  \<open>struct.pack('< B B 54s 6s', len(data), ndef_type, data.ljust(54, b'\0'), access_code)\<close>.
\<close>

definition NDEF_to_string :: "NDEF \<Rightarrow> error + bytes" where
  "NDEF_to_string r =
     bind_err (to_string_data r) (\<lambda>data.
       if length data > NDEF_DATA_SIZE
       then Inl (YubiKeyNEO_USBHIDError ''NDEF payload too long'')
       else
         bind_err (pack_B (int (length data))) (\<lambda>b1.
         bind_err (pack_B (ndef_type r)) (\<lambda>b2.
         Inr (b1 @ b2 @ pack_s NDEF_DATA_SIZE (ljust data NDEF_DATA_SIZE 0)
                 @ pack_s ACC_CODE_SIZE (access_code r)))))"

text \<open>\<open>to_frame(slot)\<close>; \<open>None\<close> stands for an omitted argument (default \<open>_SLOT_NDEF\<close>).\<close>

definition NDEF_to_frame :: "NDEF \<Rightarrow> int option \<Rightarrow> error + YubiKeyFrame" where
  "NDEF_to_frame r slot =
     bind_err (NDEF_to_string r) (\<lambda>data.
     Inr \<lparr>command = (case slot of None \<Rightarrow> SLOT_NDEF | Some s \<Rightarrow> s),
          payload = ljust data 64 0\<rparr>)"

section \<open>USB modes and product IDs: \<open>ykdef\<close>\<close>

text \<open>The constants of the classes \<open>MODE\<close> and \<open>PID\<close>.\<close>

abbreviation (input) MODE__OTP :: int where "MODE__OTP \<equiv> 0x00"
abbreviation (input) MODE__CCID :: int where "MODE__CCID \<equiv> 0x01"
abbreviation (input) MODE__OTP_CCID :: int where "MODE__OTP_CCID \<equiv> 0x02"
abbreviation (input) MODE__U2F :: int where "MODE__U2F \<equiv> 0x03"
abbreviation (input) MODE__OTP_U2F :: int where "MODE__OTP_U2F \<equiv> 0x04"
abbreviation (input) MODE__U2F_CCID :: int where "MODE__U2F_CCID \<equiv> 0x05"
abbreviation (input) MODE__OTP_U2F_CCID :: int where "MODE__OTP_U2F_CCID \<equiv> 0x06"

abbreviation (input) YUBIKEY :: int where "YUBIKEY \<equiv> 0x0010"
abbreviation (input) NEO_OTP :: int where "NEO_OTP \<equiv> 0x0110"
abbreviation (input) NEO_OTP_CCID :: int where "NEO_OTP_CCID \<equiv> 0x0111"
abbreviation (input) NEO_CCID :: int where "NEO_CCID \<equiv> 0x0112"
abbreviation (input) NEO_U2F :: int where "NEO_U2F \<equiv> 0x0113"
abbreviation (input) NEO_OTP_U2F :: int where "NEO_OTP_U2F \<equiv> 0x0114"
abbreviation (input) NEO_U2F_CCID :: int where "NEO_U2F_CCID \<equiv> 0x0115"
abbreviation (input) NEO_OTP_U2F_CCID :: int where "NEO_OTP_U2F_CCID \<equiv> 0x0116"
abbreviation (input) NEO_SKY :: int where "NEO_SKY \<equiv> 0x0120"
abbreviation (input) YK4_OTP :: int where "YK4_OTP \<equiv> 0x0401"
abbreviation (input) YK4_U2F :: int where "YK4_U2F \<equiv> 0x0402"
abbreviation (input) YK4_OTP_U2F :: int where "YK4_OTP_U2F \<equiv> 0x0403"
abbreviation (input) YK4_CCID :: int where "YK4_CCID \<equiv> 0x0404"
abbreviation (input) YK4_OTP_CCID :: int where "YK4_OTP_CCID \<equiv> 0x0405"
abbreviation (input) YK4_U2F_CCID :: int where "YK4_U2F_CCID \<equiv> 0x0406"
abbreviation (input) YK4_OTP_U2F_CCID :: int where "YK4_OTP_U2F_CCID \<equiv> 0x0407"
abbreviation (input) PLUS_U2F_OTP :: int where "PLUS_U2F_OTP \<equiv> 0x0410"

text \<open>\<open>MODE.all(otp, ccid, u2f)\<close>: the set of all modes, cut down by \<open>difference_update\<close>.\<close>

definition MODE_all :: "bool \<Rightarrow> bool \<Rightarrow> bool \<Rightarrow> int set" where
  "MODE_all otp ccid u2f =
     (let modes = {MODE__OTP, MODE__CCID, MODE__OTP_CCID, MODE__U2F, MODE__OTP_U2F,
                   MODE__U2F_CCID, MODE__OTP_U2F_CCID};
          modes = (if otp then modes - {MODE__CCID, MODE__U2F, MODE__U2F_CCID} else modes);
          modes = (if ccid then modes - {MODE__OTP, MODE__U2F, MODE__OTP_U2F} else modes);
          modes = (if u2f then modes - {MODE__OTP, MODE__CCID, MODE__OTP_CCID} else modes)
      in modes)"

text \<open>\<open>PID.all(otp, ccid, u2f)\<close>\<close>

definition PID_all :: "bool \<Rightarrow> bool \<Rightarrow> bool \<Rightarrow> int set" where
  "PID_all otp ccid u2f =
     (let pids = {YUBIKEY, NEO_OTP, NEO_OTP_CCID, NEO_CCID, NEO_U2F, NEO_OTP_U2F, NEO_U2F_CCID,
                  NEO_OTP_U2F_CCID, NEO_SKY, YK4_OTP, YK4_U2F, YK4_OTP_U2F, YK4_CCID,
                  YK4_OTP_CCID, YK4_U2F_CCID, YK4_OTP_U2F_CCID, PLUS_U2F_OTP};
          pids = (if otp then pids - {NEO_CCID, NEO_U2F, NEO_U2F_CCID, NEO_SKY, YK4_U2F,
                                      YK4_CCID, YK4_U2F_CCID} else pids);
          pids = (if ccid then pids - {YUBIKEY, NEO_OTP, NEO_U2F, NEO_OTP_U2F, NEO_SKY, YK4_OTP,
                                       YK4_U2F, YK4_OTP_U2F, PLUS_U2F_OTP} else pids);
          pids = (if u2f then pids - {YUBIKEY, NEO_OTP, NEO_OTP_CCID, NEO_CCID, YK4_OTP,
                                      YK4_CCID, YK4_OTP_CCID} else pids)
      in pids)"

section \<open>Notions of the specification\<close>

text \<open>
  The interfaces a USB mode or a product ID offers, as the comments beside the constants
  of \<open>ykdef\<close> give them (the first-generation YubiKey and every \<open>OTP\<close> variant type one-time
  passwords, the Security Key is a U2F-only device).
\<close>

datatype capability = Otp | Ccid | U2f

definition mode_capabilities :: "int \<Rightarrow> capability set" where
  "mode_capabilities m =
     (if m = MODE__OTP then {Otp}
      else if m = MODE__CCID then {Ccid}
      else if m = MODE__OTP_CCID then {Otp, Ccid}
      else if m = MODE__U2F then {U2f}
      else if m = MODE__OTP_U2F then {Otp, U2f}
      else if m = MODE__U2F_CCID then {U2f, Ccid}
      else if m = MODE__OTP_U2F_CCID then {Otp, U2f, Ccid}
      else {})"

definition pid_capabilities :: "int \<Rightarrow> capability set" where
  "pid_capabilities p =
     (if p = YUBIKEY then {Otp}
      else if p = NEO_OTP then {Otp}
      else if p = NEO_OTP_CCID then {Otp, Ccid}
      else if p = NEO_CCID then {Ccid}
      else if p = NEO_U2F then {U2f}
      else if p = NEO_OTP_U2F then {Otp, U2f}
      else if p = NEO_U2F_CCID then {U2f, Ccid}
      else if p = NEO_OTP_U2F_CCID then {Otp, U2f, Ccid}
      else if p = NEO_SKY then {U2f}
      else if p = YK4_OTP then {Otp}
      else if p = YK4_U2F then {U2f}
      else if p = YK4_OTP_U2F then {Otp, U2f}
      else if p = YK4_CCID then {Ccid}
      else if p = YK4_OTP_CCID then {Otp, Ccid}
      else if p = YK4_U2F_CCID then {U2f, Ccid}
      else if p = YK4_OTP_U2F_CCID then {Otp, U2f, Ccid}
      else if p = PLUS_U2F_OTP then {Otp, U2f}
      else {})"

text \<open>The capabilities a call of a filter asks for.\<close>

definition requested :: "bool \<Rightarrow> bool \<Rightarrow> bool \<Rightarrow> capability set" where
  "requested otp ccid u2f =
     (if otp then {Otp} else {}) \<union> (if ccid then {Ccid} else {}) \<union> (if u2f then {U2f} else {})"

text \<open>
  The specification's "case-insensitive match against the start of the payload": the
  payload's first \<open>length P\<close> bytes and the prefix \<open>P\<close> agree once both are lower-cased.
\<close>

definition case_insensitive_start :: "string \<Rightarrow> bytes \<Rightarrow> bool" where
  "case_insensitive_start P data \<longleftrightarrow>
     lower (decode_latin1 (take (length P) data)) = lower P"

text \<open>The specification's "version is at least (3,0,0)", component by component.\<close>

definition at_least_3_0_0 :: "version \<Rightarrow> bool" where
  "at_least_3_0_0 v =
     (case v of (major, minor, patch) \<Rightarrow>
        major > 3 \<or> (major = 3 \<and> (minor > 0 \<or> (minor = 0 \<and> patch \<ge> 0))))"

section \<open>Auxiliary facts\<close>

lemma bind_err_Inr [simp]: "bind_err (Inr x) f = f x"
  by (simp add: bind_err_def)

lemma bind_err_Inl [simp]: "bind_err (Inl e) f = Inl e"
  by (simp add: bind_err_def)

lemma table_lower: "\<forall>e \<in> set uri_identifiers. lower (snd e) = snd e"
  by (simp add: uri_identifiers_def lower_def lower_char_def)

lemma table_codes: "\<forall>e \<in> set uri_identifiers. 0 \<le> fst e \<and> fst e \<le> 255"
  by (simp add: uri_identifiers_def)

lemma table_nth:
  "uri_identifiers ! 0 = (0x01, ''http://www.'')"
  "uri_identifiers ! Suc 0 = (0x02, ''https://www.'')"
  by (simp_all add: uri_identifiers_def)

text \<open>The scan returns the first entry whose test succeeds, whatever the table.\<close>

lemma uri_scan_first:
  assumes "i < length tbl"
    and "lower (decode_latin1 (take (length (snd (tbl ! i))) data)) = snd (tbl ! i)"
    and "\<forall>j<i. lower (decode_latin1 (take (length (snd (tbl ! j))) data)) \<noteq> snd (tbl ! j)"
  shows "uri_scan tbl data = (fst (tbl ! i), drop (length (snd (tbl ! i))) data)"
  using assms
proof (induction tbl arbitrary: i)
  case Nil
  then show ?case by simp
next
  case (Cons e rest)
  obtain code p where e: "e = (code, p)" by (cases e)
  show ?case
  proof (cases i)
    case 0
    with Cons.prems e show ?thesis by simp
  next
    case (Suc k)
    from Cons.prems(3) Suc have miss: "lower (decode_latin1 (take (length p) data)) \<noteq> p"
      using e by force
    have k: "k < length rest" using Cons.prems(1) Suc by simp
    have hit: "lower (decode_latin1 (take (length (snd (rest ! k))) data)) = snd (rest ! k)"
      using Cons.prems(2) Suc by simp
    have before:
      "\<forall>j<k. lower (decode_latin1 (take (length (snd (rest ! j))) data)) \<noteq> snd (rest ! j)"
    proof (intro allI impI)
      fix j assume "j < k"
      then have "Suc j < i" using Suc by simp
      with Cons.prems(3)
      show "lower (decode_latin1 (take (length (snd (rest ! j))) data)) \<noteq> snd (rest ! j)"
        by force
    qed
    from Cons.IH [OF k hit before] miss e Suc show ?thesis by simp
  qed
qed

lemma uri_scan_none:
  "\<forall>e \<in> set tbl. lower (decode_latin1 (take (length (snd e)) data)) \<noteq> snd e
   \<Longrightarrow> uri_scan tbl data = (0, data)"
  by (induction tbl) auto

text \<open>
  Every prefix of the table is its own lower-case form, so the test of the loop is the
  case-insensitive comparison.
\<close>

lemma table_test:
  "e \<in> set uri_identifiers \<Longrightarrow>
   (lower (decode_latin1 (take (length (snd e)) data)) = snd e)
     = case_insensitive_start (snd e) data"
  using table_lower by (simp add: case_insensitive_start_def)

lemma tuple_ge_3: "tuple_ge v (3, 0, 0) = at_least_3_0_0 v"
  by (cases v) (auto simp: at_least_3_0_0_def)

lemma tuple_lt_3: "tuple_lt v (3, 0, 0) = (\<not> at_least_3_0_0 v)"
  by (cases v) (auto simp: at_least_3_0_0_def)

text \<open>Lengths of the packed pieces.\<close>

lemma length_pack_s: "length (pack_s n v) = n"
  by (simp add: pack_s_def)

lemma pack_s_exact: "length v = n \<Longrightarrow> pack_s n v = v"
  by (simp add: pack_s_def)

text \<open>The code the scan returns is 0 or a code of the table, so its byte can be built.\<close>

lemma uri_scan_code: "fst (uri_scan tbl data) \<in> insert 0 (fst ` set tbl)"
proof (induction tbl)
  case Nil
  show ?case by simp
next
  case (Cons e rest)
  obtain code p where e: "e = (code, p)" by (cases e)
  show ?case
  proof (cases "lower (decode_latin1 (take (length p) data)) = p")
    case True
    then show ?thesis by (simp add: e)
  next
    case False
    with Cons.IH show ?thesis by (auto simp: e)
  qed
qed

lemma encode_ndef_uri_type_total: "\<exists>d. encode_ndef_uri_type data = Inr d"
proof -
  obtain t d where s: "uri_scan uri_identifiers data = (t, d)"
    by (cases "uri_scan uri_identifiers data")
  have "t = 0 \<or> t \<in> fst ` set uri_identifiers"
    using uri_scan_code [of uri_identifiers data] s by simp
  then have "0 \<le> t \<and> t \<le> 255"
    using table_codes by auto
  then show ?thesis
    by (simp add: encode_ndef_uri_type_def s chr_byte_def)
qed

text \<open>No prefix of the table begins with the letter z.\<close>

lemma z_no_match:
  "\<forall>e \<in> set uri_identifiers.
     lower (decode_latin1 (take (length (snd e)) (0x7A # rest))) \<noteq> snd e"
  by (simp add: uri_identifiers_def decode_latin1_def lower_def lower_char_def char_of_eq_iff)

lemma z_encode: "encode_ndef_uri_type (0x7A # rest) = Inr (0x00 # 0x7A # rest)"
  using uri_scan_none [OF z_no_match, of rest]
  by (simp add: encode_ndef_uri_type_def chr_byte_def)

text \<open>The two outcomes of \<open>to_string\<close> once the transform has produced its data.\<close>

lemma NDEF_to_string_length: "NDEF_to_string r = Inr s \<Longrightarrow> length s = 62"
  by (auto simp: NDEF_to_string_def bind_err_def pack_B_def length_pack_s NDEF_DATA_SIZE_def
      ACC_CODE_SIZE_def split: sum.splits if_splits)

lemma DEVICE_CONFIG_to_string_length: "DEVICE_CONFIG_to_string c = Inr s \<Longrightarrow> length s = 4"
  by (auto simp: DEVICE_CONFIG_to_string_def bind_err_def pack_B_def pack_H_def
      split: sum.splits if_splits)

lemma NDEF_to_string_ok:
  assumes "to_string_data r = Inr data" "length data \<le> 54"
    "0 \<le> ndef_type r" "ndef_type r \<le> 255"
  shows "NDEF_to_string r =
     Inr (word_of_nat (length data) # word_of_int (ndef_type r)
           # data @ replicate (54 - length data) 0 @ pack_s 6 (access_code r))"
  using assms
  by (simp add: NDEF_to_string_def pack_B_def NDEF_DATA_SIZE_def ACC_CODE_SIZE_def
      pack_s_exact ljust_def)

lemma payload_too_long_if:
  "to_string_data r = Inr data \<Longrightarrow> 54 < length data \<Longrightarrow>
   NDEF_to_string r = Inl (YubiKeyNEO_USBHIDError ''NDEF payload too long'')"
  by (simp add: NDEF_to_string_def NDEF_DATA_SIZE_def)

lemma payload_too_long_only_if:
  assumes "NDEF_to_string r = Inl (YubiKeyNEO_USBHIDError ''NDEF payload too long'')"
  shows "\<exists>d. to_string_data r = Inr d \<and> 54 < length d"
proof (cases "to_string_data r")
  case (Inl e)
  have "e = ValueError"
    using Inl
    by (auto simp: to_string_data_def encode_ndef_uri_type_def encode_ndef_text_params_def
        chr_byte_def Let_def bind_err_def split: if_splits prod.splits)
  with Inl assms show ?thesis by (simp add: NDEF_to_string_def)
next
  case (Inr d)
  with assms show ?thesis
    by (auto simp: NDEF_to_string_def NDEF_DATA_SIZE_def pack_B_def bind_err_def
        split: if_splits)
qed

text \<open>Two concrete records: a raw numeric type 9 over the payload \<open>ab\<close>, and mode 0x02.\<close>

lemma raw_example:
  "NDEF_to_string (fst (NDEF_type (NDEF_init [0x61, 0x62] None) False False (PyInt 9)))
     = Inr (0x02 # 0x09 # [0x61, 0x62] @ replicate 52 0 @ replicate 6 0)"
  by (simp add: NDEF_type_def NDEF_init_def to_string_data_def NDEF_to_string_def
      NDEF_URI_TYPE_def NDEF_TEXT_TYPE_def ACC_CODE_SIZE_def NDEF_DATA_SIZE_def pack_B_def
      pack_s_def ljust_def)

lemma mode_example:
  "DEVICE_CONFIG_to_string (DEVICE_CONFIG_init (Some 0x02)) = Inr [0x02, 0x00, 0x00, 0x00]"
  by (simp add: DEVICE_CONFIG_to_string_def DEVICE_CONFIG_init_def pack_B_def pack_H_def)

section \<open>The claims\<close>

text \<open>
  C1. For every payload and every entry of the URI table: if the entry is the first one, in
  table order, whose prefix matches the start of the payload without regard to case, the
  encoding is the entry's code as one byte followed by the payload without its first
  \<open>length P\<close> bytes (the rest untouched). If no entry matches, the encoding is the byte
  0x00 followed by the whole payload.
\<close>

theorem encode_ndef_uri_type_first_match:
  "(\<forall>i < length uri_identifiers.
      case_insensitive_start (snd (uri_identifiers ! i)) data \<and>
      (\<forall>j < i. \<not> case_insensitive_start (snd (uri_identifiers ! j)) data) \<longrightarrow>
      encode_ndef_uri_type data =
        Inr (word_of_int (fst (uri_identifiers ! i))
               # drop (length (snd (uri_identifiers ! i))) data))
   \<and> ((\<forall>e \<in> set uri_identifiers. \<not> case_insensitive_start (snd e) data) \<longrightarrow>
        encode_ndef_uri_type data = Inr (0x00 # data))"
proof (intro conjI allI impI)
  fix i
  assume i: "i < length uri_identifiers"
    and m: "case_insensitive_start (snd (uri_identifiers ! i)) data \<and>
      (\<forall>j < i. \<not> case_insensitive_start (snd (uri_identifiers ! j)) data)"
  have mem: "\<And>j. j \<le> i \<Longrightarrow> uri_identifiers ! j \<in> set uri_identifiers"
    using i by simp
  have hit: "lower (decode_latin1 (take (length (snd (uri_identifiers ! i))) data))
      = snd (uri_identifiers ! i)"
    using m table_test [OF mem [of i]] by simp
  have before: "\<forall>j<i. lower (decode_latin1 (take (length (snd (uri_identifiers ! j))) data))
      \<noteq> snd (uri_identifiers ! j)"
    using m table_test [OF mem] by simp
  have code: "0 \<le> fst (uri_identifiers ! i) \<and> fst (uri_identifiers ! i) \<le> 255"
    using table_codes mem [of i] by blast
  show "encode_ndef_uri_type data =
        Inr (word_of_int (fst (uri_identifiers ! i))
               # drop (length (snd (uri_identifiers ! i))) data)"
    using uri_scan_first [OF i hit before] code
    by (simp add: encode_ndef_uri_type_def chr_byte_def)
next
  assume "\<forall>e \<in> set uri_identifiers. \<not> case_insensitive_start (snd e) data"
  then have "\<forall>e \<in> set uri_identifiers.
      lower (decode_latin1 (take (length (snd e)) data)) \<noteq> snd e"
    using table_test by blast
  from uri_scan_none [OF this] show "encode_ndef_uri_type data = Inr (0x00 # data)"
    by (simp add: encode_ndef_uri_type_def chr_byte_def)
qed

theorem encode_ndef_uri_type_first_match_witness:
  "1 < length uri_identifiers
   \<and> case_insensitive_start (snd (uri_identifiers ! 1)) (map of_char ''HTTPS://www.Example.com'')
   \<and> \<not> case_insensitive_start (snd (uri_identifiers ! 0)) (map of_char ''HTTPS://www.Example.com'')
   \<and> encode_ndef_uri_type (map of_char ''HTTPS://www.Example.com'')
       = Inr (0x02 # map of_char ''Example.com'')
   \<and> \<not> (\<exists>e \<in> set uri_identifiers. case_insensitive_start (snd e) (map of_char ''xyz''))
   \<and> encode_ndef_uri_type (map of_char ''xyz'') = Inr (0x00 # map of_char ''xyz'')"
proof -
  let ?d = "map of_char ''HTTPS://www.Example.com'' :: bytes"
  have l: "1 < length uri_identifiers" by (simp add: uri_identifiers_def)
  have h: "case_insensitive_start (snd (uri_identifiers ! 1)) ?d"
    by (simp add: table_nth case_insensitive_start_def decode_latin1_def lower_def
        lower_char_def char_of_eq_iff)
  have b0: "\<not> case_insensitive_start (snd (uri_identifiers ! 0)) ?d"
    by (simp add: table_nth case_insensitive_start_def decode_latin1_def lower_def
        lower_char_def char_of_eq_iff)
  then have b: "\<forall>j < 1. \<not> case_insensitive_start (snd (uri_identifiers ! j)) ?d"
    by simp
  have n: "\<forall>e \<in> set uri_identifiers. \<not> case_insensitive_start (snd e) (map of_char ''xyz'')"
    by (simp add: uri_identifiers_def case_insensitive_start_def decode_latin1_def lower_def
        lower_char_def char_of_eq_iff)
  from encode_ndef_uri_type_first_match [of ?d] l h b
  have "encode_ndef_uri_type ?d =
      Inr (word_of_int (fst (uri_identifiers ! 1)) # drop (length (snd (uri_identifiers ! 1))) ?d)"
    by blast
  then have e1: "encode_ndef_uri_type ?d = Inr (0x02 # map of_char ''Example.com'')"
    by (simp add: table_nth)
  from encode_ndef_uri_type_first_match [of "map of_char ''xyz''"] n
  have e2: "encode_ndef_uri_type (map of_char ''xyz'') = Inr (0x00 # map of_char ''xyz'')"
    by blast
  from l h b0 n e1 e2 show ?thesis by blast
qed

text \<open>
  C2. The status byte of a Text record, evaluated on the payload \<open>hi\<close> with the language
  tag \<open>en\<close>. With the encoding \<open>UTF16\<close> the code computes \<open>len AND 0x80\<close>: the status
  byte is 0x00, its high bit clear and the tag length gone. With \<open>UTF-8\<close> the status byte
  is the tag length 2. In both cases the tag and the payload follow.
\<close>

theorem encode_ndef_text_params_status:
  "encode_ndef_text_params
     (NDEF_text (NDEF_init (map of_char ''hi'') None) ''UTF16'' (map of_char ''en''))
     (map of_char ''hi'')
   = Inr (0x00 # map of_char ''enhi'')
   \<and> encode_ndef_text_params
     (NDEF_text (NDEF_init (map of_char ''hi'') None) ''UTF-8'' (map of_char ''en''))
     (map of_char ''hi'')
   = Inr (0x02 # map of_char ''enhi'')"
  by (simp add: encode_ndef_text_params_def NDEF_text_def NDEF_init_def chr_byte_def)

text \<open>
  C3, amended. For every NFC tag record whose data after the transform is at most 54
  bytes, whose access code is 6 bytes and whose type code lies in 0..255, serialization
  returns exactly 62 bytes: one byte holding the length of the data before padding, one
  byte holding the type code, the data filled with zero bytes to 54 bytes, then the access
  code, and nothing after it.
\<close>

theorem NDEF_to_string_layout:
  "to_string_data r = Inr data \<and> length data \<le> 54 \<and> length (access_code r) = 6
     \<and> 0 \<le> ndef_type r \<and> ndef_type r \<le> 255 \<longrightarrow>
   NDEF_to_string r =
     Inr (word_of_nat (length data) # word_of_int (ndef_type r)
           # data @ replicate (54 - length data) 0 @ access_code r)
   \<and> length (word_of_nat (length data) # word_of_int (ndef_type r)
           # data @ replicate (54 - length data) (0 :: byte) @ access_code r) = 62
   \<and> unat (word_of_nat (length data) :: byte) = length data
   \<and> uint (word_of_int (ndef_type r) :: byte) = ndef_type r"
proof (intro impI, elim conjE)
  assume a: "to_string_data r = Inr data" "length data \<le> 54" "length (access_code r) = 6"
    "0 \<le> ndef_type r" "ndef_type r \<le> 255"
  have s: "NDEF_to_string r =
     Inr (word_of_nat (length data) # word_of_int (ndef_type r)
           # data @ replicate (54 - length data) 0 @ access_code r)"
    using NDEF_to_string_ok [OF a(1,2,4,5)] a(3) by (simp add: pack_s_exact)
  have l: "unat (word_of_nat (length data) :: byte) = length data"
    using a(2) by (simp add: unat_of_nat)
  have t: "uint (word_of_int (ndef_type r) :: byte) = ndef_type r"
    using a(4,5) by (simp add: uint_word_of_int)
  from s l t a(2,3) show "NDEF_to_string r =
     Inr (word_of_nat (length data) # word_of_int (ndef_type r)
           # data @ replicate (54 - length data) 0 @ access_code r)
   \<and> length (word_of_nat (length data) # word_of_int (ndef_type r)
           # data @ replicate (54 - length data) (0 :: byte) @ access_code r) = 62
   \<and> unat (word_of_nat (length data) :: byte) = length data
   \<and> uint (word_of_int (ndef_type r) :: byte) = ndef_type r"
    by simp
qed

theorem NDEF_to_string_layout_witness:
  "to_string_data (fst (NDEF_type (NDEF_init [0x61, 0x62] None) False False (PyInt 9)))
      = Inr [0x61, 0x62]
   \<and> length (access_code (fst (NDEF_type (NDEF_init [0x61, 0x62] None) False False (PyInt 9)))) = 6
   \<and> NDEF_to_string (fst (NDEF_type (NDEF_init [0x61, 0x62] None) False False (PyInt 9)))
     = Inr (0x02 # 0x09 # [0x61, 0x62] @ replicate 52 0 @ replicate 6 0)"
  using NDEF_to_string_layout
    [of "fst (NDEF_type (NDEF_init [0x61, 0x62] None) False False (PyInt 9))" "[0x61, 0x62]"]
  by (simp add: NDEF_type_def NDEF_init_def to_string_data_def
      NDEF_URI_TYPE_def NDEF_TEXT_TYPE_def ACC_CODE_SIZE_def)

text \<open>
  C3 as stated fails on a record whose raw numeric type does not fit a byte: the empty
  payload with the type 300 selected has transformed data of length 0 and the default
  6-byte access code, and \<open>struct.pack\<close> rejects the type code.
\<close>

theorem NDEF_to_string_type_out_of_range:
  "to_string_data (fst (NDEF_type (NDEF_init [] None) False False (PyInt 300))) = Inr []
   \<and> length (access_code (fst (NDEF_type (NDEF_init [] None) False False (PyInt 300)))) = 6
   \<and> NDEF_to_string (fst (NDEF_type (NDEF_init [] None) False False (PyInt 300)))
       = Inl StructError"
  by (simp add: NDEF_type_def NDEF_init_def to_string_data_def NDEF_to_string_def
      NDEF_URI_TYPE_def NDEF_TEXT_TYPE_def ACC_CODE_SIZE_def NDEF_DATA_SIZE_def pack_B_def)

text \<open>
  C4. Serialization fails with the payload-too-long error if and only if the data after
  the transform of the record's type is longer than 54 bytes. In particular a URI record
  whose compressed data has exactly 54 bytes serializes, and one of 55 bytes fails with
  that error. (When the transform itself raises, there is no transformed data, and the
  error is the transform's.)
\<close>

theorem NDEF_to_string_PayloadTooLarge_iff:
  "(NDEF_to_string r = Inl (YubiKeyNEO_USBHIDError ''NDEF payload too long'')
      \<longleftrightarrow> (\<exists>d. to_string_data r = Inr d \<and> 54 < length d))
   \<and> (ndef_type r = NDEF_URI_TYPE \<longrightarrow>
        (\<exists>d. encode_ndef_uri_type (ndef_str r) = Inr d
           \<and> (length d = 54 \<longrightarrow> (\<exists>s. NDEF_to_string r = Inr s))
           \<and> (length d = 55 \<longrightarrow>
                NDEF_to_string r = Inl (YubiKeyNEO_USBHIDError ''NDEF payload too long''))))"
proof (intro conjI impI)
  show "NDEF_to_string r = Inl (YubiKeyNEO_USBHIDError ''NDEF payload too long'')
      \<longleftrightarrow> (\<exists>d. to_string_data r = Inr d \<and> 54 < length d)"
    using payload_too_long_if payload_too_long_only_if by blast
next
  assume u: "ndef_type r = NDEF_URI_TYPE"
  obtain d where d: "encode_ndef_uri_type (ndef_str r) = Inr d"
    using encode_ndef_uri_type_total by blast
  have t: "to_string_data r = Inr d"
    using u d by (simp add: to_string_data_def)
  have "length d = 54 \<longrightarrow> (\<exists>s. NDEF_to_string r = Inr s)"
    using NDEF_to_string_ok [OF t] u by (simp add: NDEF_URI_TYPE_def)
  moreover have "length d = 55 \<longrightarrow>
      NDEF_to_string r = Inl (YubiKeyNEO_USBHIDError ''NDEF payload too long'')"
    using payload_too_long_if [OF t] by simp
  ultimately show "\<exists>d. encode_ndef_uri_type (ndef_str r) = Inr d
           \<and> (length d = 54 \<longrightarrow> (\<exists>s. NDEF_to_string r = Inr s))
           \<and> (length d = 55 \<longrightarrow>
                NDEF_to_string r = Inl (YubiKeyNEO_USBHIDError ''NDEF payload too long''))"
    using d by blast
qed

theorem NDEF_to_string_PayloadTooLarge_iff_witness:
  "ndef_type (NDEF_init (0x7A # replicate 52 0x7A) None) = NDEF_URI_TYPE
   \<and> encode_ndef_uri_type (0x7A # replicate 52 0x7A) = Inr (0x00 # 0x7A # replicate 52 0x7A)
   \<and> length (0x00 # 0x7A # replicate 52 (0x7A :: byte)) = 54
   \<and> (\<exists>s. NDEF_to_string (NDEF_init (0x7A # replicate 52 0x7A) None) = Inr s)
   \<and> encode_ndef_uri_type (0x7A # replicate 53 0x7A) = Inr (0x00 # 0x7A # replicate 53 0x7A)
   \<and> length (0x00 # 0x7A # replicate 53 (0x7A :: byte)) = 55
   \<and> NDEF_to_string (NDEF_init (0x7A # replicate 53 0x7A) None)
       = Inl (YubiKeyNEO_USBHIDError ''NDEF payload too long'')"
  using NDEF_to_string_PayloadTooLarge_iff [of "NDEF_init (0x7A # replicate 52 0x7A) None"]
    NDEF_to_string_PayloadTooLarge_iff [of "NDEF_init (0x7A # replicate 53 0x7A) None"]
  by (simp add: NDEF_init_def z_encode)

text \<open>
  C5. The type selection succeeds exactly when one selector is given alone: \<open>url\<close> alone
  selects the URI type, \<open>text\<close> alone the Text type, an integer \<open>other\<close> with \<open>url\<close> and
  \<open>text\<close> unset that numeric type. Every other combination, among them all three unset
  and \<open>url\<close> together with \<open>text\<close>, raises the error and leaves the record as it was.
\<close>

theorem NDEF_type_exactly_one:
  "(snd (NDEF_type r url txt other) = None \<longleftrightarrow>
      (url \<and> \<not> txt \<and> other = PyNone) \<or> (\<not> url \<and> txt \<and> other = PyNone)
      \<or> (\<not> url \<and> \<not> txt \<and> (\<exists>n. other = PyInt n)))
   \<and> (url \<and> \<not> txt \<and> other = PyNone \<longrightarrow>
        NDEF_type r url txt other = (r\<lparr>ndef_type := NDEF_URI_TYPE\<rparr>, None))
   \<and> (\<not> url \<and> txt \<and> other = PyNone \<longrightarrow>
        NDEF_type r url txt other = (r\<lparr>ndef_type := NDEF_TEXT_TYPE\<rparr>, None))
   \<and> (\<forall>n. \<not> url \<and> \<not> txt \<and> other = PyInt n \<longrightarrow>
        NDEF_type r url txt other = (r\<lparr>ndef_type := n\<rparr>, None))
   \<and> (snd (NDEF_type r url txt other) \<noteq> None \<longrightarrow>
        NDEF_type r url txt other =
          (r, Some (YubiKeyNEO_USBHIDError ''Bad or conflicting NDEF type specified'')))
   \<and> snd (NDEF_type r False False PyNone) \<noteq> None
   \<and> snd (NDEF_type r True True PyNone) \<noteq> None"
  by (cases other; cases url; cases "txt") (simp_all add: NDEF_type_def)

theorem NDEF_type_exactly_one_witness:
  "NDEF_type (NDEF_init [] None) True False PyNone
     = ((NDEF_init [] None)\<lparr>ndef_type := NDEF_URI_TYPE\<rparr>, None)
   \<and> NDEF_type (NDEF_init [] None) False True PyNone
     = ((NDEF_init [] None)\<lparr>ndef_type := NDEF_TEXT_TYPE\<rparr>, None)
   \<and> NDEF_type (NDEF_init [] None) False False (PyInt 7)
     = ((NDEF_init [] None)\<lparr>ndef_type := 7\<rparr>, None)
   \<and> snd (NDEF_type (NDEF_init [] None) True True PyNone) \<noteq> None
   \<and> NDEF_type (NDEF_init [] None) True True PyNone
     = (NDEF_init [] None,
        Some (YubiKeyNEO_USBHIDError ''Bad or conflicting NDEF type specified''))"
  using NDEF_type_exactly_one [of "NDEF_init [] None" True False PyNone]
    NDEF_type_exactly_one [of "NDEF_init [] None" False True PyNone]
    NDEF_type_exactly_one [of "NDEF_init [] None" False False "PyInt 7"]
    NDEF_type_exactly_one [of "NDEF_init [] None" True True PyNone]
  by simp

text \<open>
  C6. A device-mode record whose mode and timeout fit one byte and whose eject time fits
  two bytes serializes to exactly four bytes: the mode, the timeout, then the eject time
  with its low byte first. Mode 0x02, timeout 10 and eject time 300 give 02 0A 2C 01.
\<close>

theorem DEVICE_CONFIG_to_string_layout:
  "(0 \<le> priv_mode c \<and> priv_mode c \<le> 255
      \<and> 0 \<le> priv_cr_timeout c \<and> priv_cr_timeout c \<le> 255
      \<and> 0 \<le> priv_auto_eject_time c \<and> priv_auto_eject_time c \<le> 65535 \<longrightarrow>
     (\<exists>s. DEVICE_CONFIG_to_string c = Inr s \<and> length s = 4
        \<and> uint (s ! 0) = priv_mode c \<and> uint (s ! 1) = priv_cr_timeout c
        \<and> uint (s ! 2) + 256 * uint (s ! 3) = priv_auto_eject_time c))
   \<and> DEVICE_CONFIG_to_string
        (auto_eject_time (cr_timeout (DEVICE_CONFIG_init (Some 0x02)) 10) 300)
       = Inr [0x02, 0x0A, 0x2C, 0x01]"
  apply (rule conjI)
   apply (clarsimp simp: DEVICE_CONFIG_to_string_def pack_B_def pack_H_def uint_word_of_int)
  apply (simp add: DEVICE_CONFIG_to_string_def pack_B_def pack_H_def auto_eject_time_def
      cr_timeout_def DEVICE_CONFIG_init_def)
  done

theorem DEVICE_CONFIG_to_string_layout_witness:
  "(\<exists>s. DEVICE_CONFIG_to_string
           \<lparr>priv_mode = 6, priv_cr_timeout = 15, priv_auto_eject_time = 513\<rparr> = Inr s
        \<and> length s = 4 \<and> uint (s ! 0) = 6 \<and> uint (s ! 1) = 15
        \<and> uint (s ! 2) + 256 * uint (s ! 3) = 513)"
  using DEVICE_CONFIG_to_string_layout
    [of "\<lparr>priv_mode = 6, priv_cr_timeout = 15, priv_auto_eject_time = 513\<rparr>"]
  by simp

text \<open>
  C7. For every device version: challenge-response is available iff the version is at
  least (3,0,0); configuration slot 1 is always usable and slot 2 iff the version is at
  least (3,0,0); NFC tag programming is always available; the device-mode record is
  writable iff the version is at least (3,0,0). So the device-mode gate is closed at
  (2,1,9) and open at (3,0,0), and slot 2 is refused at (2,4,3) and usable at (3,1,0).
\<close>

theorem capabilities_by_version:
  "have_challenge_response v m = at_least_3_0_0 v
   \<and> have_configuration_slot v 1
   \<and> have_configuration_slot v 2 = at_least_3_0_0 v
   \<and> have_nfc_ndef v
   \<and> have_device_config v = at_least_3_0_0 v
   \<and> \<not> have_device_config (2, 1, 9) \<and> have_device_config (3, 0, 0)
   \<and> \<not> have_configuration_slot (2, 4, 3) 2 \<and> have_configuration_slot (3, 1, 0) 2"
  by (simp add: have_challenge_response_def have_configuration_slot_def have_nfc_ndef_def
      have_device_config_def tuple_ge_3 tuple_lt_3 at_least_3_0_0_def)

theorem capabilities_by_version_witness:
  "\<not> have_challenge_response (2, 4, 3) () \<and> have_challenge_response (3, 1, 0) ()
   \<and> have_configuration_slot (2, 4, 3) 1 \<and> have_configuration_slot (3, 1, 0) 1
   \<and> \<not> have_configuration_slot (2, 4, 3) 2 \<and> have_configuration_slot (3, 1, 0) 2
   \<and> have_nfc_ndef (2, 4, 3)
   \<and> \<not> have_device_config (2, 4, 3) \<and> have_device_config (3, 1, 0)"
  using capabilities_by_version [of "(2, 4, 3)" "()"] capabilities_by_version [of "(3, 1, 0)" "()"]
  by (simp add: at_least_3_0_0_def)

text \<open>
  C8. For every choice of the three filter arguments, the USB-mode filter returns exactly
  those of the seven modes that offer every requested capability, and the product-ID
  filter does the same over its seventeen product IDs.
\<close>

theorem all_filters_by_capability:
  "MODE_all False False False = {0, 1, 2, 3, 4, 5, 6}
   \<and> MODE_all otp ccid u2f =
       {m \<in> MODE_all False False False. requested otp ccid u2f \<subseteq> mode_capabilities m}
   \<and> card (PID_all False False False) = 17
   \<and> PID_all otp ccid u2f =
       {p \<in> PID_all False False False. requested otp ccid u2f \<subseteq> pid_capabilities p}"
  apply (intro conjI)
  subgoal by (simp add: MODE_all_def)
  subgoal by (cases otp; cases ccid; cases u2f)
      (auto simp: MODE_all_def requested_def mode_capabilities_def)
  subgoal by (simp add: PID_all_def)
  subgoal by (cases otp; cases ccid; cases u2f)
      (auto simp: PID_all_def requested_def pid_capabilities_def)
  done

theorem all_filters_by_capability_witness:
  "MODE_all True True False = {MODE__OTP_CCID, MODE__OTP_U2F_CCID}
   \<and> PID_all True True False = {NEO_OTP_CCID, NEO_OTP_U2F_CCID, YK4_OTP_CCID, YK4_OTP_U2F_CCID}"
proof -
  have "{m \<in> MODE_all False False False. requested True True False \<subseteq> mode_capabilities m}
      = {MODE__OTP_CCID, MODE__OTP_U2F_CCID}"
    by (auto simp: MODE_all_def requested_def mode_capabilities_def)
  moreover
  have "{p \<in> PID_all False False False. requested True True False \<subseteq> pid_capabilities p}
      = {NEO_OTP_CCID, NEO_OTP_U2F_CCID, YK4_OTP_CCID, YK4_OTP_U2F_CCID}"
    by (auto simp: PID_all_def requested_def pid_capabilities_def)
  ultimately show ?thesis
    using all_filters_by_capability [of True True False] by simp
qed

text \<open>
  C9. For every record, tag or device-mode, whose serialization succeeds and every slot
  code, the frame built has the given slot code as its command (0x08 for a tag record and
  0x11 for a device-mode record when none is given) and, as its payload, the serialized
  record filled with zero bytes to exactly 64 bytes.
\<close>

theorem to_frame_command_and_padding:
  "(NDEF_to_string r = Inr s \<longrightarrow>
      NDEF_to_frame r slot =
        Inr \<lparr>command = (case slot of None \<Rightarrow> 0x08 | Some code \<Rightarrow> code),
             payload = s @ replicate (64 - length s) 0\<rparr>
      \<and> length (s @ replicate (64 - length s) (0 :: byte)) = 64)
   \<and> (DEVICE_CONFIG_to_string c = Inr s' \<longrightarrow>
      DEVICE_CONFIG_to_frame c slot =
        Inr \<lparr>command = (case slot of None \<Rightarrow> 0x11 | Some code \<Rightarrow> code),
             payload = s' @ replicate (64 - length s') 0\<rparr>
      \<and> length (s' @ replicate (64 - length s') (0 :: byte)) = 64)"
proof (intro conjI impI)
  assume a: "NDEF_to_string r = Inr s"
  from NDEF_to_string_length [OF a] have "length s = 62" .
  then show "length (s @ replicate (64 - length s) (0 :: byte)) = 64" by simp
  from a show "NDEF_to_frame r slot =
        Inr \<lparr>command = (case slot of None \<Rightarrow> 0x08 | Some code \<Rightarrow> code),
             payload = s @ replicate (64 - length s) 0\<rparr>"
    by (cases slot) (simp_all add: NDEF_to_frame_def ljust_def SLOT_NDEF_def)
next
  assume a: "DEVICE_CONFIG_to_string c = Inr s'"
  from DEVICE_CONFIG_to_string_length [OF a] have "length s' = 4" .
  then show "length (s' @ replicate (64 - length s') (0 :: byte)) = 64" by simp
  from a show "DEVICE_CONFIG_to_frame c slot =
        Inr \<lparr>command = (case slot of None \<Rightarrow> 0x11 | Some code \<Rightarrow> code),
             payload = s' @ replicate (64 - length s') 0\<rparr>"
    by (cases slot) (simp_all add: DEVICE_CONFIG_to_frame_def ljust_def SLOT_DEVICE_CONFIG_def)
qed

theorem to_frame_command_and_padding_witness:
  "NDEF_to_string (fst (NDEF_type (NDEF_init [0x61, 0x62] None) False False (PyInt 9)))
     = Inr (0x02 # 0x09 # [0x61, 0x62] @ replicate 52 0 @ replicate 6 0)
   \<and> NDEF_to_frame (fst (NDEF_type (NDEF_init [0x61, 0x62] None) False False (PyInt 9))) None
     = Inr \<lparr>command = 0x08,
            payload = 0x02 # 0x09 # [0x61, 0x62] @ replicate 52 0 @ replicate 6 0 @ [0, 0]\<rparr>
   \<and> NDEF_to_frame (fst (NDEF_type (NDEF_init [0x61, 0x62] None) False False (PyInt 9)))
        (Some 0x09)
     = Inr \<lparr>command = 0x09,
            payload = 0x02 # 0x09 # [0x61, 0x62] @ replicate 52 0 @ replicate 6 0 @ [0, 0]\<rparr>
   \<and> DEVICE_CONFIG_to_string (DEVICE_CONFIG_init (Some 0x02)) = Inr [0x02, 0x00, 0x00, 0x00]
   \<and> DEVICE_CONFIG_to_frame (DEVICE_CONFIG_init (Some 0x02)) None
     = Inr \<lparr>command = 0x11, payload = [0x02, 0x00, 0x00, 0x00] @ replicate 60 0\<rparr>"
  using to_frame_command_and_padding
      [of "fst (NDEF_type (NDEF_init [0x61, 0x62] None) False False (PyInt 9))"
        "0x02 # 0x09 # [0x61, 0x62] @ replicate 52 0 @ replicate 6 0" None
        "DEVICE_CONFIG_init (Some 0x02)" "[0x02, 0x00, 0x00, 0x00]"]
    to_frame_command_and_padding
      [of "fst (NDEF_type (NDEF_init [0x61, 0x62] None) False False (PyInt 9))"
        "0x02 # 0x09 # [0x61, 0x62] @ replicate 52 0 @ replicate 6 0" "Some 0x09"
        "DEVICE_CONFIG_init (Some 0x02)" "[0x02, 0x00, 0x00, 0x00]"]
    raw_example mode_example
  by (simp add: numeral_eq_Suc)



end
